theory Spec2Isabelle
  imports Complex_Main
begin

section \<open>Error learning and regression-test synthesis (workflows/error-learning.js)\<close>

text \<open>
  A shallow embedding of the class \<^verbatim>\<open>ErrorLearningSystem\<close>. JavaScript strings are
  modelled as HOL strings, that is as sequences of 8-bit code units (Latin-1); texts with
  code units above 255 are outside the model. The registry that the methods reach
  through \<^verbatim>\<open>this.registry\<close> is passed in and returned explicitly. The clock and the
  random identifier (\<^verbatim>\<open>Date\<close>, \<^verbatim>\<open>Math.random\<close>) are arguments of the
  operations that read them. A thrown exception is a value of type \<open>js_error\<close>.
\<close>

subsection \<open>Characters and strings\<close>

text \<open>The class \<^verbatim>\<open>\w\<close> of a regular expression without flags: \<^verbatim>\<open>[A-Za-z0-9_]\<close>.\<close>

definition is_word_char :: "char \<Rightarrow> bool" where
  "is_word_char c =
     (let n = (of_char c :: nat)
      in (48 \<le> n \<and> n \<le> 57) \<or> (65 \<le> n \<and> n \<le> 90) \<or> n = 95 \<or> (97 \<le> n \<and> n \<le> 122))"

text \<open>
  \<^verbatim>\<open>String.prototype.toLowerCase\<close> on one Latin-1 code unit: the letters A to Z, and the
  accented capitals 0xC0 to 0xDE other than the multiplication sign 0xD7, move up by 32.
\<close>

definition lower_char :: "char \<Rightarrow> char" where
  "lower_char c =
     (let n = (of_char c :: nat)
      in if (65 \<le> n \<and> n \<le> 90) \<or> (192 \<le> n \<and> n \<le> 222 \<and> n \<noteq> 215)
         then char_of (n + 32) else c)"

definition toLowerCase :: "string \<Rightarrow> string" where
  "toLowerCase s = map lower_char s"

text \<open>
  \<^verbatim>\<open>toUpperCase\<close> is only applied to the first character of a captured identifier
  (\<^verbatim>\<open>varName.charAt(0).toUpperCase()\<close>); it is modelled on the ASCII letters.
\<close>

definition upper_char :: "char \<Rightarrow> char" where
  "upper_char c =
     (let n = (of_char c :: nat)
      in if 97 \<le> n \<and> n \<le> 122 then char_of (n - 32) else c)"

text \<open>\<^verbatim>\<open>s.startsWith(n)\<close> and \<^verbatim>\<open>s.includes(n)\<close>: \<open>n\<close> occurs in \<open>s\<close> as a substring.\<close>

fun starts_with :: "string \<Rightarrow> string \<Rightarrow> bool" where
  "starts_with s [] = True"
| "starts_with [] (c # cs) = False"
| "starts_with (x # xs) (c # cs) = (x = c \<and> starts_with xs cs)"

fun includes_str :: "string \<Rightarrow> string \<Rightarrow> bool" where
  "includes_str [] n = (n = [])"
| "includes_str (x # xs) n = (starts_with (x # xs) n \<or> includes_str xs n)"

text \<open>\<^verbatim>\<open>parts.join(sep)\<close>.\<close>

fun join :: "string \<Rightarrow> string list \<Rightarrow> string" where
  "join sep [] = []"
| "join sep [p] = p"
| "join sep (p # q # ps) = p @ sep @ join sep (q # ps)"

text \<open>
  \<^verbatim>\<open>s.split(/\W+/)\<close>. The pieces between maximal runs of non-word characters, in order;
  a run at the start or at the end of the text leaves an empty piece there, and the
  empty text gives one empty piece. \<open>cur\<close> is the piece being read (reversed) and
  \<open>insep\<close> tells that the previous character belonged to a separator.
\<close>

primrec split_go :: "string \<Rightarrow> string \<Rightarrow> bool \<Rightarrow> string list" where
  "split_go [] cur insep = [rev cur]"
| "split_go (c # cs) cur insep =
     (if is_word_char c then split_go cs (c # cur) False
      else if insep then split_go cs cur True
      else rev cur # split_go cs [] True)"

definition split_nonword :: "string \<Rightarrow> string list" where
  "split_nonword s = split_go s [] False"

text \<open>
  The expression \<^verbatim>\<open>text.toLowerCase().split(/\W+/).filter(w => w.length > 3)\<close>, which
  \<^verbatim>\<open>findSimilarErrors\<close> applies to the query and to every recorded message.
\<close>

definition significant_words :: "string \<Rightarrow> string list" where
  "significant_words s = filter (\<lambda>w. length w > 3) (split_nonword (toLowerCase s))"

subsection \<open>Regular expressions of the taxonomy\<close>

text \<open>
  The patterns of \<^verbatim>\<open>ERROR_CATEGORIES\<close> use literal text, the greedy repetitions
  \<^verbatim>\<open>\w+\<close> and \<^verbatim>\<open>.*\<close>, alternatives and unnested capture groups.
  \<open>rx_match r s\<close> lists every way \<open>r\<close> can match a prefix of \<open>s\<close>, in the order in which
  a backtracking matcher tries them; an entry holds the captures and the text left over.
\<close>

datatype cclass = Word | Dot

fun in_class :: "cclass \<Rightarrow> char \<Rightarrow> bool" where
  "in_class Word c = is_word_char c"
| "in_class Dot c = (c \<noteq> CHR 0x0A \<and> c \<noteq> CHR 0x0D)"

datatype rx =
    Lit string
  | Rep1 cclass
  | Rep0 cclass
  | Alt rx rx
  | Seq rx rx
  | Grp rx

text \<open>The texts left after consuming a non-empty run of class members, longest run first.\<close>

primrec run_splits :: "(char \<Rightarrow> bool) \<Rightarrow> string \<Rightarrow> string list" where
  "run_splits P [] = []"
| "run_splits P (c # cs) = (if P c then run_splits P cs @ [cs] else [])"

fun rx_match :: "rx \<Rightarrow> string \<Rightarrow> (string list \<times> string) list" where
  "rx_match (Lit l) s = (if starts_with s l then [([], drop (length l) s)] else [])"
| "rx_match (Rep1 k) s = map (\<lambda>rest. ([], rest)) (run_splits (in_class k) s)"
| "rx_match (Rep0 k) s = map (\<lambda>rest. ([], rest)) (run_splits (in_class k) s @ [s])"
| "rx_match (Alt a b) s = rx_match a s @ rx_match b s"
| "rx_match (Seq a b) s =
     concat (map (\<lambda>(c1, r1). map (\<lambda>(c2, r2). (c1 @ c2, r2)) (rx_match b r1)) (rx_match a s))"
| "rx_match (Grp a) s =
     map (\<lambda>(c, rest). (take (length s - length rest) s # c, rest)) (rx_match a s)"

text \<open>A match attempt at one position: the matched text \<^verbatim>\<open>match[0]\<close> and the captures.\<close>

definition exec_at :: "rx \<Rightarrow> string \<Rightarrow> (string \<times> string list) option" where
  "exec_at r s =
     (case rx_match r s of
        [] \<Rightarrow> None
      | (caps, rest) # _ \<Rightarrow> Some (take (length s - length rest) s, caps))"

text \<open>\<^verbatim>\<open>text.match(regex)\<close> for a regex without the global flag: the leftmost match.\<close>

fun js_match :: "rx \<Rightarrow> string \<Rightarrow> (string \<times> string list) option" where
  "js_match r [] = exec_at r []"
| "js_match r (c # cs) =
     (case exec_at r (c # cs) of Some m \<Rightarrow> Some m | None \<Rightarrow> js_match r cs)"

subsection \<open>The category taxonomy\<close>

record category_config =
  description :: string
  cfg_testType :: string
  cfg_patterns :: "(rx \<times> string) list"

definition word_group :: rx where
  "word_group = Grp (Rep1 Word)"

definition ERROR_CATEGORIES :: "(string \<times> category_config) list" where
  \<open>ERROR_CATEGORIES =
    [(''js-runtime'',
      \<lparr>description = ''JavaScript runtime errors (undefined variables, type errors)'',
       cfg_testType = ''playwright'',
       cfg_patterns =
         [(Seq word_group (Lit '' is not defined''), ''variableName''),
          (Seq (Lit ''Cannot read propert'')
             (Seq (Grp (Alt (Lit ''y'') (Lit ''ies'')))
                (Seq (Lit '' of '') (Grp (Alt (Lit ''null'') (Lit ''undefined''))))),
           ''nullAccess''),
          (Seq (Lit ''Cannot access '') (Seq (Lit [CHR 0x27])
             (Seq word_group (Seq (Lit [CHR 0x27]) (Lit '' before initialization'')))),
           ''temporalDeadZone''),
          (Seq word_group (Lit '' is not a function''), ''notFunction'')]\<rparr>),
     (''js-syntax'',
      \<lparr>description = ''JavaScript syntax errors'',
       cfg_testType = ''eslint'',
       cfg_patterns =
         [(Lit ''Unexpected token'', ''syntaxError''),
          (Lit ''Unterminated string'', ''unterminatedString'')]\<rparr>),
     (''python-import'',
      \<lparr>description = ''Python import errors'',
       cfg_testType = ''python'',
       cfg_patterns =
         [(Seq (Lit ''ModuleNotFoundError: No module named '') (Seq (Lit [CHR 0x27])
             (Seq word_group (Lit [CHR 0x27]))),
           ''moduleName''),
          (Seq (Lit ''ImportError: cannot import name '') (Seq (Lit [CHR 0x27])
             (Seq word_group (Lit [CHR 0x27]))),
           ''importName'')]\<rparr>),
     (''python-runtime'',
      \<lparr>description = ''Python runtime errors'',
       cfg_testType = ''python'',
       cfg_patterns =
         [(Seq (Lit ''NameError: name '') (Seq (Lit [CHR 0x27])
             (Seq word_group (Seq (Lit [CHR 0x27]) (Lit '' is not defined'')))),
           ''variableName''),
          (Seq (Lit ''AttributeError: '') (Seq (Lit [CHR 0x27])
             (Seq word_group (Seq (Lit [CHR 0x27]) (Seq (Lit '' object has no attribute '')
                (Seq (Lit [CHR 0x27]) (Seq word_group (Lit [CHR 0x27]))))))),
           ''attributeError''),
          (Seq (Lit ''TypeError: '') word_group, ''typeError'')]\<rparr>),
     (''qt-crash'',
      \<lparr>description = ''Qt/PyQt crashes (SIGSEGV, accessibility)'',
       cfg_testType = ''manual'',
       cfg_patterns =
         [(Seq (Lit ''SIGSEGV'') (Seq (Rep0 Dot) (Lit ''QAccessible'')), ''accessibilityCrash''),
          (Lit ''Segmentation fault'', ''segfault'')]\<rparr>),
     (''database'',
      \<lparr>description = ''Database errors'',
       cfg_testType = ''python'',
       cfg_patterns =
         [(Lit ''sqlite3.OperationalError'', ''sqliteError''),
          (Seq (Lit ''no such table: '') word_group, ''missingTable'')]\<rparr>)]\<close>

text \<open>
  \<^verbatim>\<open>ERROR_CATEGORIES[category]\<close> is a property read on an object literal. A name that
  is not a key of the literal is looked up on \<^verbatim>\<open>Object.prototype\<close>, whose properties
  are functions or objects, hence truthy, and have no \<^verbatim>\<open>patterns\<close> property.
\<close>

definition object_prototype_keys :: "string list" where
  "object_prototype_keys =
     [''constructor'', ''__proto__'', ''hasOwnProperty'', ''isPrototypeOf'',
      ''propertyIsEnumerable'', ''toLocaleString'', ''toString'', ''valueOf'',
      ''__defineGetter__'', ''__defineSetter__'', ''__lookupGetter__'', ''__lookupSetter__'']"

datatype 'a js_prop = Own 'a | Inherited | Undefined

definition category_lookup :: "string \<Rightarrow> category_config js_prop" where
  "category_lookup category =
     (case map_of ERROR_CATEGORIES category of
        Some cfg \<Rightarrow> Own cfg
      | None \<Rightarrow> if category \<in> set object_prototype_keys then Inherited else Undefined)"

datatype js_error = TypeError

subsection \<open>Pattern detection\<close>

record detected_pattern =
  p_type :: string
  p_match :: string
  p_captures :: "string list"
  p_testType :: string

text \<open>The loop of \<^verbatim>\<open>detectPattern\<close> over the extraction rules of one category.\<close>

fun first_rule :: "string \<Rightarrow> string \<Rightarrow> (rx \<times> string) list \<Rightarrow> detected_pattern option" where
  "first_rule errorMessage tt [] = None"
| "first_rule errorMessage tt ((regex, extract) # rules) =
     (case js_match regex errorMessage of
        Some (m, caps) \<Rightarrow>
          Some \<lparr>p_type = extract, p_match = m, p_captures = caps, p_testType = tt\<rparr>
      | None \<Rightarrow> first_rule errorMessage tt rules)"

text \<open>
  \<^verbatim>\<open>detectPattern(errorMessage, category)\<close>. An inherited property passes the check
  \<^verbatim>\<open>if (!categoryConfig) return null\<close>; iterating its undefined \<^verbatim>\<open>patterns\<close> throws.
\<close>

definition detectPattern :: "string \<Rightarrow> string \<Rightarrow> js_error + detected_pattern option" where
  "detectPattern errorMessage category =
     (case category_lookup category of
        Undefined \<Rightarrow> Inr None
      | Inherited \<Rightarrow> Inl TypeError
      | Own cfg \<Rightarrow> Inr (first_rule errorMessage (cfg_testType cfg) (cfg_patterns cfg)))"

subsection \<open>The registry\<close>

record failure_record =
  err_id :: string
  message :: string
  category :: string
  err_context :: "(string \<times> string) list"
  reportedAt :: string
  status :: string
  testGenerated :: bool
  detectedPattern :: "detected_pattern option"
  similarErrors :: "string list option"

record test_fragment =
  errorId :: string
  testName :: string
  testCode :: string
  testType :: string
  generatedAt :: string

record lint_pattern =
  lint_errorId :: string
  lint_type :: string
  lint_rule :: string
  lint_generatedAt :: string

record registry =
  projectName :: string
  version :: string
  createdAt :: string
  updatedAt :: "string option"
  errors :: "failure_record list"
  generatedTests :: "test_fragment list"
  patterns :: "lint_pattern list"

text \<open>The registry that \<^verbatim>\<open>loadRegistry\<close> returns when no registry file exists.\<close>

definition initial_registry :: "string \<Rightarrow> string \<Rightarrow> registry" where
  "initial_registry name now =
     \<lparr>projectName = name, version = ''1.0'', createdAt = now, updatedAt = None,
      errors = [], generatedTests = [], patterns = []\<rparr>"

text \<open>
  \<^verbatim>\<open>saveRegistry\<close> stamps the registry and writes all of it to the registry file; the
  file then holds the value returned here.
\<close>

definition saveRegistry :: "string \<Rightarrow> registry \<Rightarrow> registry" where
  "saveRegistry now reg = reg\<lparr>updatedAt := Some now\<rparr>"

subsection \<open>Similarity\<close>

text \<open>
  \<^verbatim>\<open>findSimilarErrors(errorMessage)\<close>. \<open>commonWords\<close> keeps every occurrence of a query
  word that the recorded message contains, and the threshold is computed on numbers.
\<close>

definition findSimilarErrors :: "string \<Rightarrow> registry \<Rightarrow> failure_record list" where
  "findSimilarErrors errorMessage reg =
     (let ws = significant_words errorMessage
      in filter (\<lambda>e.
           let existingWords = significant_words (message e);
               commonWords = filter (\<lambda>w. w \<in> set existingWords) ws
           in real (length commonWords) \<ge> min 3 (real (length ws) * 0.5))
         (errors reg))"

subsection \<open>Test synthesis\<close>

text \<open>
  \<^verbatim>\<open>captures[0]\<close> is undefined for a pattern without a capture group; a template
  literal prints an undefined value as the text \<^verbatim>\<open>undefined\<close>.
\<close>

definition first_capture :: "string list \<Rightarrow> string option" where
  "first_capture caps = (case caps of [] \<Rightarrow> None | c # _ \<Rightarrow> Some c)"

definition interpolate :: "string option \<Rightarrow> string" where
  "interpolate v = (case v of None \<Rightarrow> ''undefined'' | Some s \<Rightarrow> s)"

definition variable_check :: "string \<Rightarrow> string \<Rightarrow> string" where
  \<open>variable_check varName getterName =
     ''\<newline>'' @
     ''        // Check that '' @ varName @ '' is accessible (either as variable or via getter function)\<newline>'' @
     ''        // Original error: "'' @ varName @ '' is not defined"\<newline>'' @
     ''        const isAccessible = await page.evaluate(() => {\<newline>'' @
     ''            try {\<newline>'' @
     ''                // First check if getter function exists (e.g., getInheritorsList for inheritorsList)\<newline>'' @
     ''                if (typeof window.'' @ getterName @ '' === '' @ [CHR 0x27] @ ''function'' @ [CHR 0x27] @ '') {\<newline>'' @
     ''                    window.'' @ getterName @ ''();\<newline>'' @
     ''                    return true;\<newline>'' @
     ''                }\<newline>'' @
     ''                // Then check if variable is directly accessible\<newline>'' @
     ''                if (typeof '' @ varName @ '' !== '' @ [CHR 0x27] @ ''undefined'' @ [CHR 0x27] @ '') {\<newline>'' @
     ''                    return true;\<newline>'' @
     ''                }\<newline>'' @
     ''                // Check window scope\<newline>'' @
     ''                if (typeof window.'' @ varName @ '' !== '' @ [CHR 0x27] @ ''undefined'' @ [CHR 0x27] @ '') {\<newline>'' @
     ''                    return true;\<newline>'' @
     ''                }\<newline>'' @
     ''                return false;\<newline>'' @
     ''            } catch (e) {\<newline>'' @
     ''                console.error('' @ [CHR 0x27] @ ''Access check failed:'' @ [CHR 0x27] @ '', e.message);\<newline>'' @
     ''                return false;\<newline>'' @
     ''            }\<newline>'' @
     ''        });\<newline>'' @
     ''        expect(isAccessible, '' @ [CHR 0x27] @ varName @ '' should be accessible (directly or via '' @ getterName @ '')'' @ [CHR 0x27] @ '').toBe(true);''\<close>

definition tdz_check :: "string \<Rightarrow> string" where
  \<open>tdz_check tdzVarName =
     ''\<newline>'' @
     ''        // Check that '' @ tdzVarName @ '' doesn'' @ [CHR 0x27] @ ''t cause TDZ error when accessed via functions\<newline>'' @
     ''        // Original error: "Cannot access '' @ [CHR 0x27] @ tdzVarName @ [CHR 0x27] @ '' before initialization"\<newline>'' @
     ''        // This error typically occurs when let/const variables are accessed before declaration\<newline>'' @
     ''        const noTdzError = await page.evaluate(() => {\<newline>'' @
     ''            const errors = [];\<newline>'' @
     ''            // Listen for any page errors\<newline>'' @
     ''            window.onerror = (msg) => errors.push(msg);\<newline>'' @
     ''\<newline>'' @
     ''            // Try calling functions that might use '' @ tdzVarName @ ''\<newline>'' @
     ''            // The fix is usually to wrap access in try-catch or check initialization\<newline>'' @
     ''            try {\<newline>'' @
     ''                // If there are check/calculate functions, call them\<newline>'' @
     ''                const fnNames = Object.keys(window).filter(k =>\<newline>'' @
     ''                    typeof window[k] === '' @ [CHR 0x27] @ ''function'' @ [CHR 0x27] @ '' &&\<newline>'' @
     ''                    (k.includes('' @ [CHR 0x27] @ ''check'' @ [CHR 0x27] @ '') || k.includes('' @ [CHR 0x27] @ ''calculate'' @ [CHR 0x27] @ '') || k.includes('' @ [CHR 0x27] @ ''Tab'' @ [CHR 0x27] @ ''))\<newline>'' @
     ''                );\<newline>'' @
     ''                for (const fn of fnNames.slice(0, 10)) {\<newline>'' @
     ''                    try {\<newline>'' @
     ''                        window[fn]();\<newline>'' @
     ''                    } catch (e) {\<newline>'' @
     ''                        if (e.message && e.message.includes('' @ [CHR 0x27] @ tdzVarName @ [CHR 0x27] @ '') && e.message.includes('' @ [CHR 0x27] @ ''before initialization'' @ [CHR 0x27] @ '')) {\<newline>'' @
     ''                            return false; // TDZ error found\<newline>'' @
     ''                        }\<newline>'' @
     ''                    }\<newline>'' @
     ''                }\<newline>'' @
     ''                return true; // No TDZ errors\<newline>'' @
     ''            } catch (e) {\<newline>'' @
     ''                return !e.message?.includes('' @ [CHR 0x27] @ ''before initialization'' @ [CHR 0x27] @ '');\<newline>'' @
     ''            }\<newline>'' @
     ''        });\<newline>'' @
     ''        expect(noTdzError, '' @ [CHR 0x27] @ tdzVarName @ '' should not cause TDZ errors'' @ [CHR 0x27] @ '').toBe(true);''\<close>

definition function_check :: "string \<Rightarrow> string" where
  \<open>function_check c =
     ''\<newline>'' @
     ''        // Check that '' @ c @ '' is a function\<newline>'' @
     ''        const isFunction = await page.evaluate(() => {\<newline>'' @
     ''            return typeof window.'' @ c @ '' === '' @ [CHR 0x27] @ ''function'' @ [CHR 0x27] @ '';\<newline>'' @
     ''        });\<newline>'' @
     ''        expect(isFunction, '' @ [CHR 0x27] @ c @ '' should be a function'' @ [CHR 0x27] @ '').toBe(true);''\<close>

definition playwright_testCode :: "string \<Rightarrow> string \<Rightarrow> string" where
  \<open>playwright_testCode name checkCode =
     ''\<newline>'' @
     ''    test('' @ [CHR 0x27] @ ''regression: '' @ name @ [CHR 0x27] @ '', async ({ page }) => {\<newline>'' @
     ''        const htmlPath = path.resolve(__dirname, '' @ [CHR 0x27] @ ''../../src/frontend/index.html'' @ [CHR 0x27] @ '');\<newline>'' @
     ''        await page.goto(`file://${htmlPath}`);\<newline>'' @
     ''        await page.waitForLoadState('' @ [CHR 0x27] @ ''domcontentloaded'' @ [CHR 0x27] @ '');\<newline>'' @
     ''        await page.waitForTimeout(1000);\<newline>'' @
     checkCode @ ''\<newline>'' @
     ''    });''\<close>

text \<open>
  The \<^verbatim>\<open>switch (type)\<close> of \<^verbatim>\<open>generatePlaywrightTest\<close>: the test name and the check
  code, or \<open>None\<close> where the default branch returns false. In the first branch
  \<^verbatim>\<open>varName.charAt(0)\<close> throws when there is no capture.
\<close>

definition playwright_switch :: "detected_pattern \<Rightarrow> js_error + (string \<times> string) option" where
  "playwright_switch p =
     (if p_type p = ''variableName'' then
        (case first_capture (p_captures p) of
           None \<Rightarrow> Inl TypeError
         | Some varName \<Rightarrow>
             let getterName = ''get'' @ map upper_char (take 1 varName) @ drop 1 varName;
                 name = ''variable_'' @ varName @ ''_accessible''
             in Inr (Some (name, variable_check varName getterName)))
      else if p_type p = ''temporalDeadZone'' then
        (let tdzVarName = interpolate (first_capture (p_captures p));
             name = ''variable_'' @ tdzVarName @ ''_no_tdz''
         in Inr (Some (name, tdz_check tdzVarName)))
      else if p_type p = ''notFunction'' then
        (let c = interpolate (first_capture (p_captures p));
             name = ''function_'' @ c @ ''_exists''
         in Inr (Some (name, function_check c)))
      else Inr None)"

text \<open>
  The generators return the value of the method (or the exception) together with the
  registry as the call leaves it. Destructuring a missing \<^verbatim>\<open>detectedPattern\<close> throws.
\<close>

definition generatePlaywrightTest ::
  "failure_record \<Rightarrow> string \<Rightarrow> registry \<Rightarrow> (js_error + bool) \<times> registry" where
  "generatePlaywrightTest error now reg =
     (case detectedPattern error of
        None \<Rightarrow> (Inl TypeError, reg)
      | Some p \<Rightarrow>
          (case playwright_switch p of
             Inl e \<Rightarrow> (Inl e, reg)
           | Inr None \<Rightarrow> (Inr False, reg)
           | Inr (Some (name, checkCode)) \<Rightarrow>
               (Inr True,
                reg\<lparr>generatedTests := generatedTests reg @
                  [\<lparr>errorId = err_id error, testName = name,
                    testCode = playwright_testCode name checkCode,
                    testType = ''playwright'', generatedAt = now\<rparr>]\<rparr>)))"

definition generateESLintCheck ::
  "failure_record \<Rightarrow> string \<Rightarrow> registry \<Rightarrow> (js_error + bool) \<times> registry" where
  "generateESLintCheck error now reg =
     (Inr True,
      reg\<lparr>patterns := patterns reg @
        [\<lparr>lint_errorId = err_id error, lint_type = ''eslint'', lint_rule = ''no-undef'',
          lint_generatedAt = now\<rparr>]\<rparr>)"

definition module_testCode :: "string \<Rightarrow> string \<Rightarrow> string" where
  \<open>module_testCode name c =
     ''\<newline>'' @
     ''def '' @ name @ ''():\<newline>'' @
     ''    """Regression test: ensure '' @ c @ '' module is importable"""\<newline>'' @
     ''    try:\<newline>'' @
     ''        import '' @ c @ ''\<newline>'' @
     ''        assert True\<newline>'' @
     ''    except ImportError:\<newline>'' @
     ''        pytest.fail("'' @ c @ '' module should be importable")\<newline>''\<close>

definition variable_testCode :: "string \<Rightarrow> string \<Rightarrow> string" where
  \<open>variable_testCode name c =
     ''\<newline>'' @
     ''def '' @ name @ ''():\<newline>'' @
     ''    """Regression test: ensure '' @ c @ '' is defined"""\<newline>'' @
     ''    # This test should be customized based on the module context\<newline>'' @
     ''    pass\<newline>''\<close>

text \<open>The \<^verbatim>\<open>switch (type)\<close> of \<^verbatim>\<open>generatePythonTest\<close>: the test name and the test code.\<close>

definition python_switch :: "detected_pattern \<Rightarrow> (string \<times> string) option" where
  "python_switch p =
     (if p_type p = ''moduleName'' then
        (let c = interpolate (first_capture (p_captures p));
             name = ''test_module_'' @ c @ ''_importable''
         in Some (name, module_testCode name c))
      else if p_type p = ''variableName'' then
        (let c = interpolate (first_capture (p_captures p));
             name = ''test_variable_'' @ c @ ''_defined''
         in Some (name, variable_testCode name c))
      else None)"

definition generatePythonTest ::
  "failure_record \<Rightarrow> string \<Rightarrow> registry \<Rightarrow> (js_error + bool) \<times> registry" where
  "generatePythonTest error now reg =
     (case detectedPattern error of
        None \<Rightarrow> (Inl TypeError, reg)
      | Some p \<Rightarrow>
          (case python_switch p of
             None \<Rightarrow> (Inr False, reg)
           | Some (name, code) \<Rightarrow>
               (Inr True,
                reg\<lparr>generatedTests := generatedTests reg @
                  [\<lparr>errorId = err_id error, testName = name, testCode = code,
                    testType = ''python'', generatedAt = now\<rparr>]\<rparr>)))"

definition generateTestForError ::
  "failure_record \<Rightarrow> string \<Rightarrow> registry \<Rightarrow> (js_error + bool) \<times> registry" where
  "generateTestForError error now reg =
     (case detectedPattern error of
        None \<Rightarrow> (Inr False, reg)
      | Some p \<Rightarrow>
          if p_testType p = ''playwright'' then generatePlaywrightTest error now reg
          else if p_testType p = ''eslint'' then generateESLintCheck error now reg
          else if p_testType p = ''python'' then generatePythonTest error now reg
          else (Inr False, reg))"

subsection \<open>Reporting a failure\<close>

text \<open>
  \<^verbatim>\<open>reportError(errorMessage, category, context)\<close>; \<open>rid\<close> is the generated identifier
  and \<open>now\<close> the time of the call. The object \<^verbatim>\<open>error\<close> is pushed onto
  \<^verbatim>\<open>registry.errors\<close> before the synthesis, so the two assignments after a successful
  synthesis change the last record of the registry. An exception of \<^verbatim>\<open>detectPattern\<close>
  leaves before anything is stored.
\<close>

definition update_last :: "'a list \<Rightarrow> 'a \<Rightarrow> 'a list" where
  "update_last xs x = butlast xs @ [x]"

definition reportError ::
  "string \<Rightarrow> string \<Rightarrow> (string \<times> string) list \<Rightarrow> string \<Rightarrow> string \<Rightarrow> registry
     \<Rightarrow> (js_error + failure_record) \<times> registry" where
  "reportError errorMessage cat ctx rid now reg =
     (let error0 = \<lparr>err_id = rid, message = errorMessage, category = cat, err_context = ctx,
                     reportedAt = now, status = ''new'', testGenerated = False,
                     detectedPattern = None, similarErrors = None\<rparr>
      in case detectPattern errorMessage cat of
           Inl e \<Rightarrow> (Inl e, reg)
         | Inr found \<Rightarrow>
             let error1 = error0\<lparr>detectedPattern := found\<rparr>;
                 similar = findSimilarErrors errorMessage reg;
                 error2 = (if length similar > 0
                           then error1\<lparr>similarErrors := Some (map err_id similar)\<rparr>
                           else error1);
                 reg1 = saveRegistry now (reg\<lparr>errors := errors reg @ [error2]\<rparr>)
             in (case generateTestForError error2 now reg1 of
                   (Inl e, reg2) \<Rightarrow> (Inl e, reg2)
                 | (Inr generated, reg2) \<Rightarrow>
                     (if generated then
                        (let error3 = error2\<lparr>testGenerated := True, status := ''test-generated''\<rparr>
                         in (Inr error3,
                             saveRegistry now
                               (reg2\<lparr>errors := update_last (errors reg2) error3\<rparr>)))
                      else (Inr error2, reg2))))"

subsection \<open>Export\<close>

definition playwright_file_content :: "string \<Rightarrow> string" where
  \<open>playwright_file_content body =
     ''// @ts-check\<newline>'' @
     ''const { test, expect } = require('' @ [CHR 0x27] @ ''@playwright/test'' @ [CHR 0x27] @ '');\<newline>'' @
     ''const path = require('' @ [CHR 0x27] @ ''path'' @ [CHR 0x27] @ '');\<newline>'' @
     ''\<newline>'' @
     ''/**\<newline>'' @
     '' * Auto-generated Regression Tests\<newline>'' @
     '' *\<newline>'' @
     '' * These tests were automatically generated by the Error Learning System\<newline>'' @
     '' * to prevent previously encountered errors from recurring.\<newline>'' @
     '' *\<newline>'' @
     '' * DO NOT EDIT MANUALLY - regenerate using:\<newline>'' @
     '' *   node ../agentic-dev-pipeline/workflows/error-learning.js --export-tests\<newline>'' @
     '' */\<newline>'' @
     ''\<newline>'' @
     ''test.describe('' @ [CHR 0x27] @ ''Regression Tests - Error Prevention'' @ [CHR 0x27] @ '', () => {\<newline>'' @
     body @ ''\<newline>'' @
     ''});\<newline>''\<close>

definition python_file_content :: "string \<Rightarrow> string" where
  \<open>python_file_content body =
     ''"""\<newline>'' @
     ''Auto-generated Regression Tests\<newline>'' @
     ''\<newline>'' @
     ''These tests were automatically generated by the Error Learning System\<newline>'' @
     ''to prevent previously encountered errors from recurring.\<newline>'' @
     ''\<newline>'' @
     ''DO NOT EDIT MANUALLY - regenerate using:\<newline>'' @
     ''    node ../agentic-dev-pipeline/workflows/error-learning.js --export-tests\<newline>'' @
     ''"""\<newline>'' @
     ''\<newline>'' @
     ''import pytest\<newline>'' @
     ''import sys\<newline>'' @
     ''import os\<newline>'' @
     ''\<newline>'' @
     ''sys.path.insert(0, os.path.join(os.path.dirname(__file__), '' @ [CHR 0x27] @ ''..'' @ [CHR 0x27] @ '', '' @ [CHR 0x27] @ ''src'' @ [CHR 0x27] @ '', '' @ [CHR 0x27] @ ''backend'' @ [CHR 0x27] @ ''))\<newline>'' @
     ''\<newline>'' @
     body @ ''\<newline>''\<close>

text \<open>
  The export methods read one test file and write it back. A file is \<open>None\<close> when it
  does not exist, \<open>Some text\<close> otherwise; the result is the file after the call.
\<close>

definition exportPlaywrightTests :: "test_fragment list \<Rightarrow> string option \<Rightarrow> string option" where
  "exportPlaywrightTests tests file =
     (let existingTests = (case file of Some text \<Rightarrow> text | None \<Rightarrow> '''');
          newTests = filter (\<lambda>t. \<not> includes_str existingTests (testName t)) tests
      in if length newTests = 0 then file
         else Some (playwright_file_content (join ''\<newline>'' (map testCode newTests))))"

definition exportPythonTests :: "test_fragment list \<Rightarrow> string option \<Rightarrow> string option" where
  "exportPythonTests tests file =
     (let existingTests = (case file of Some text \<Rightarrow> text | None \<Rightarrow> '''');
          newTests = filter (\<lambda>t. \<not> includes_str existingTests (testName t)) tests
      in if length newTests = 0 then file
         else Some (python_file_content (join ''\<newline>'' (map testCode newTests))))"

record test_files =
  playwright_file :: "string option"
  python_file :: "string option"

text \<open>\<^verbatim>\<open>exportTests(projectPath)\<close>: the two counts it returns and the files it leaves.\<close>

definition exportTests :: "registry \<Rightarrow> test_files \<Rightarrow> (nat \<times> nat) \<times> test_files" where
  "exportTests reg files =
     (let playwrightTests = filter (\<lambda>t. testType t = ''playwright'') (generatedTests reg);
          pythonTests = filter (\<lambda>t. testType t = ''python'') (generatedTests reg);
          files1 = (if length playwrightTests > 0
                    then files\<lparr>playwright_file :=
                           exportPlaywrightTests playwrightTests (playwright_file files)\<rparr>
                    else files);
          files2 = (if length pythonTests > 0
                    then files1\<lparr>python_file :=
                           exportPythonTests pythonTests (python_file files1)\<rparr>
                    else files1)
      in ((length playwrightTests, length pythonTests), files2))"



subsection \<open>Sequences of reports\<close>

text \<open>
  Successive calls of \<^verbatim>\<open>reportError\<close> on one registry, each with its message, its
  category and its identifier. A call that throws leaves the registry as it is at the
  throw, and the next call goes on from there.
\<close>

fun report_all :: "(string \<times> string \<times> string) list \<Rightarrow> string \<Rightarrow> registry \<Rightarrow> registry" where
  "report_all [] now reg = reg"
| "report_all ((msg, cat, rid) # rest) now reg =
     report_all rest now (snd (reportError msg cat [] rid now reg))"

subsection \<open>Predicates used in the properties\<close>

text \<open>
  The similarity test in the words of the specification: the intersection of the two
  sets of significant words has at least \<open>min 3 (0.5 * n)\<close> elements, \<open>n\<close> being the
  number of significant words of the query.
\<close>

definition spec_similar :: "string \<Rightarrow> string \<Rightarrow> bool" where
  "spec_similar q m =
     (real (card (set (significant_words m) \<inter> set (significant_words q)))
        \<ge> min 3 (0.5 * real (length (significant_words q))))"

text \<open>
  A record agrees with itself: its status is \<^verbatim>\<open>test-generated\<close> exactly when its flag
  \<^verbatim>\<open>testGenerated\<close> is set, and the status is one of the two known values.
\<close>

definition status_consistent :: "failure_record \<Rightarrow> bool" where
  "status_consistent e =
     ((status e = ''test-generated'') = testGenerated e
      \<and> (status e = ''new'' \<or> status e = ''test-generated''))"

section \<open>Properties\<close>

subsection \<open>Evaluating the taxonomy\<close>

lemma detect_segfault:
  "detectPattern ''Segmentation fault'' ''qt-crash'' =
     Inr (Some \<lparr>p_type = ''segfault'', p_match = ''Segmentation fault'', p_captures = [],
                p_testType = ''manual''\<rparr>)"
  by code_simp

text \<open>
  C8. The text \<^verbatim>\<open>fooBar is not defined\<close> under the category \<^verbatim>\<open>js-runtime\<close> is
  detected by the first rule: the extracted kind is \<^verbatim>\<open>variableName\<close> and the first
  capture is \<^verbatim>\<open>fooBar\<close>.
\<close>

theorem detect_undefined_identifier:
  "detectPattern ''fooBar is not defined'' ''js-runtime'' =
     Inr (Some \<lparr>p_type = ''variableName'', p_match = ''fooBar is not defined'',
                p_captures = [''fooBar''], p_testType = ''playwright''\<rparr>)
   \<and> (\<exists>p. detectPattern ''fooBar is not defined'' ''js-runtime'' = Inr (Some p)
          \<and> p_type p = ''variableName'' \<and> first_capture (p_captures p) = Some ''fooBar'')"
proof -
  have found: "detectPattern ''fooBar is not defined'' ''js-runtime'' =
     Inr (Some \<lparr>p_type = ''variableName'', p_match = ''fooBar is not defined'',
                p_captures = [''fooBar''], p_testType = ''playwright''\<rparr>)"
    by code_simp
  show ?thesis
    unfolding found by (simp add: first_capture_def)
qed

text \<open>
  C6. Reporting \<^verbatim>\<open>Segmentation fault\<close> under \<^verbatim>\<open>qt-crash\<close>, on any registry: the
  pattern is recognised with kind \<^verbatim>\<open>segfault\<close>, \<^verbatim>\<open>generateTestForError\<close> returns
  false and changes no registry, no fragment is added, and the stored record keeps
  \<^verbatim>\<open>testGenerated = false\<close> and the status \<^verbatim>\<open>new\<close>.
\<close>

theorem segmentation_fault_not_synthesised:
  "\<exists>e reg'.
     reportError ''Segmentation fault'' ''qt-crash'' ctx rid now reg = (Inr e, reg')
     \<and> detectPattern ''Segmentation fault'' ''qt-crash'' = Inr (detectedPattern e)
     \<and> map_option p_type (detectedPattern e) = Some ''segfault''
     \<and> generateTestForError e now r = (Inr False, r)
     \<and> generatedTests reg' = generatedTests reg
     \<and> errors reg' = errors reg @ [e]
     \<and> testGenerated e = False \<and> status e = ''new''"
  by (simp add: reportError_def detect_segfault generateTestForError_def saveRegistry_def Let_def)

subsection \<open>Similarity\<close>

text \<open>
  C10. A query without a word longer than three characters has the threshold
  \<open>min 3 (0 * 0.5) = 0\<close>, and \<^verbatim>\<open>findSimilarErrors\<close> returns every record of the corpus.
\<close>

theorem no_significant_words_returns_all:
  "significant_words q = [] \<Longrightarrow>
     min 3 (real (length (significant_words q)) * 0.5) = 0
     \<and> findSimilarErrors q reg = errors reg"
  by (simp add: findSimilarErrors_def Let_def)

theorem no_significant_words_returns_all_witness:
  "significant_words ''is it ok'' = []
   \<and> findSimilarErrors ''is it ok''
        (snd (reportError ''fooBar is not defined'' ''unknown'' [] ''err_1'' ''t1''
               (initial_registry ''demo'' ''t0'')))
      = errors (snd (reportError ''fooBar is not defined'' ''unknown'' [] ''err_1'' ''t1''
               (initial_registry ''demo'' ''t0'')))
   \<and> length (errors (snd (reportError ''fooBar is not defined'' ''unknown'' [] ''err_1'' ''t1''
               (initial_registry ''demo'' ''t0'')))) = 1"
proof -
  have h: "significant_words ''is it ok'' = []"
    by code_simp
  have n: "length (errors (snd (reportError ''fooBar is not defined'' ''unknown'' [] ''err_1''
               ''t1'' (initial_registry ''demo'' ''t0'')))) = 1"
    by code_simp
  show ?thesis
    using h n no_significant_words_returns_all [OF h] by simp
qed

lemma threshold_nat: "(min 3 (real n / 2) \<le> real m) = (3 \<le> m \<or> n \<le> 2 * m)"
  by (auto simp: min_def)

lemma findSimilarErrors_member:
  "e \<in> set (findSimilarErrors q reg) \<longleftrightarrow>
     e \<in> set (errors reg)
     \<and> (3 \<le> length (filter (\<lambda>w. w \<in> set (significant_words (message e))) (significant_words q))
        \<or> length (significant_words q)
             \<le> 2 * length (filter (\<lambda>w. w \<in> set (significant_words (message e))) (significant_words q)))"
  by (simp add: findSimilarErrors_def Let_def threshold_nat)

lemma common_single:
  assumes "set a \<inter> set b = {w}"
  shows "length (filter (\<lambda>x. x \<in> set b) a) = count_list a w"
proof -
  have "filter ((=) w) a = filter (\<lambda>x. x \<in> set b) a"
    using assms by (intro filter_cong) auto
  then show ?thesis
    by (simp add: count_list_eq_length_filter)
qed

lemma common_distinct:
  assumes "distinct a"
  shows "length (filter (\<lambda>x. x \<in> set b) a) = card (set b \<inter> set a)"
  using assms by (simp add: distinct_length_filter)

lemma words_init:
  "significant_words ''fooBar is not defined in init.js'' = [''foobar'', ''defined'', ''init'']"
  by code_simp

lemma words_main:
  "significant_words ''fooBar is not defined in main.js'' = [''foobar'', ''defined'', ''main'']"
  by code_simp

text \<open>
  C3 (as the code has it). \<^verbatim>\<open>findSimilarErrors\<close> keeps, in registry order, exactly the
  records for which the number of positions of the query's list of significant words
  holding a word of the record is at least \<open>min 3 (0.5 * n)\<close>, \<open>n\<close> being the length of
  that list: a word the query repeats counts each time. When the query repeats no
  significant word this number is the size of the intersection of the two word sets, and
  the result is the one the specification describes.
\<close>

theorem similar_counts_query_occurrences:
  "findSimilarErrors q reg =
     filter (\<lambda>e. real (card {i. i < length (significant_words q)
                              \<and> significant_words q ! i \<in> set (significant_words (message e))})
                    \<ge> min 3 (0.5 * real (length (significant_words q))))
       (errors reg)
   \<and> (distinct (significant_words q) \<longrightarrow>
        findSimilarErrors q reg = filter (\<lambda>e. spec_similar q (message e)) (errors reg))"
proof
  show "findSimilarErrors q reg =
     filter (\<lambda>e. real (card {i. i < length (significant_words q)
                              \<and> significant_words q ! i \<in> set (significant_words (message e))})
                    \<ge> min 3 (0.5 * real (length (significant_words q))))
       (errors reg)"
    by (simp add: findSimilarErrors_def Let_def length_filter_conv_card mult.commute)
  show "distinct (significant_words q) \<longrightarrow>
        findSimilarErrors q reg = filter (\<lambda>e. spec_similar q (message e)) (errors reg)"
    by (simp add: findSimilarErrors_def Let_def spec_similar_def common_distinct mult.commute)
qed

theorem similar_counts_query_occurrences_witness:
  "(let q = ''fooBar is not defined in init.js'';
        reg = \<lparr>projectName = ''demo'', version = ''1.0'', createdAt = ''t0'', updatedAt = Some ''t1'',
               errors = [\<lparr>err_id = ''err_1'', message = ''fooBar is not defined in main.js'',
                          category = ''unknown'', err_context = [], reportedAt = ''t1'', status = ''new'',
                          testGenerated = False, detectedPattern = None, similarErrors = None\<rparr>],
               generatedTests = [], patterns = []\<rparr>
    in distinct (significant_words q)
       \<and> findSimilarErrors q reg = filter (\<lambda>e. spec_similar q (message e)) (errors reg)
       \<and> map err_id (findSimilarErrors q reg) = [''err_1''])"
proof -
  define q where "q = ''fooBar is not defined in init.js''"
  define reg where "reg = \<lparr>projectName = ''demo'', version = ''1.0'', createdAt = ''t0'', updatedAt = Some ''t1'',
               errors = [\<lparr>err_id = ''err_1'', message = ''fooBar is not defined in main.js'',
                          category = ''unknown'', err_context = [], reportedAt = ''t1'', status = ''new'',
                          testGenerated = False, detectedPattern = None, similarErrors = None\<rparr>],
               generatedTests = [], patterns = []\<rparr>"
  have d: "distinct (significant_words q)"
    unfolding q_def by code_simp
  have r: "map err_id (findSimilarErrors q reg) = [''err_1'']"
    unfolding q_def reg_def by code_simp
  from similar_counts_query_occurrences [of q reg] d r
  show ?thesis
    unfolding q_def reg_def Let_def by blast
qed

text \<open>
  The set reading of C3 fails for a query that repeats a word: the query below has eight
  significant words, six of them distinct, and shares the single word \<^verbatim>\<open>timeout\<close> with
  the record, yet the record is returned because the query holds that word three times.
\<close>

theorem repeated_query_word_counterexample:
  "(let q = ''timeout timeout timeout while connecting backend service cluster'';
        reg = \<lparr>projectName = ''demo'', version = ''1.0'', createdAt = ''t0'', updatedAt = Some ''t1'',
               errors = [\<lparr>err_id = ''err_1'', message = ''timeout'',
                          category = ''unknown'', err_context = [], reportedAt = ''t1'', status = ''new'',
                          testGenerated = False, detectedPattern = None, similarErrors = None\<rparr>],
               generatedTests = [], patterns = []\<rparr>
    in findSimilarErrors q reg \<noteq> filter (\<lambda>e. spec_similar q (message e)) (errors reg)
       \<and> map err_id (findSimilarErrors q reg) = [''err_1'']
       \<and> card (set (significant_words ''timeout'') \<inter> set (significant_words q)) = 1
       \<and> min 3 (0.5 * real (length (significant_words q))) = 3
       \<and> min 3 (0.5 * real (card (set (significant_words q)))) = 3)"
  by code_simp

text \<open>
  C7 (as the code has it). Two records with the messages
  \<^verbatim>\<open>fooBar is not defined in init.js\<close> and \<^verbatim>\<open>fooBar is not defined in main.js\<close> are each
  returned when the other's message is the query. Two recorded messages that share
  exactly one significant word \<open>w\<close> are mutually similar exactly when, in each of them,
  \<open>w\<close> occurs at least three times or at least half as often as the message has
  significant words; so they are not mutually similar as soon as one of them holds \<open>w\<close>
  once among three or more significant words.
\<close>

theorem literal_pair_and_single_shared_word:
  "eA \<in> set (errors reg) \<Longrightarrow> eB \<in> set (errors reg) \<Longrightarrow>
   (message eA = ''fooBar is not defined in init.js''
      \<and> message eB = ''fooBar is not defined in main.js''
    \<longrightarrow> eB \<in> set (findSimilarErrors (message eA) reg)
        \<and> eA \<in> set (findSimilarErrors (message eB) reg))
   \<and> (set (significant_words (message eA)) \<inter> set (significant_words (message eB)) = {w}
    \<longrightarrow> (eB \<in> set (findSimilarErrors (message eA) reg)
           \<and> eA \<in> set (findSimilarErrors (message eB) reg)
         \<longleftrightarrow> (3 \<le> count_list (significant_words (message eA)) w
                \<or> length (significant_words (message eA))
                     \<le> 2 * count_list (significant_words (message eA)) w)
             \<and> (3 \<le> count_list (significant_words (message eB)) w
                \<or> length (significant_words (message eB))
                     \<le> 2 * count_list (significant_words (message eB)) w)))"
proof (intro conjI impI)
  assume mem: "eA \<in> set (errors reg)" "eB \<in> set (errors reg)"
  {
    assume lit: "message eA = ''fooBar is not defined in init.js''
      \<and> message eB = ''fooBar is not defined in main.js''"
    show "eB \<in> set (findSimilarErrors (message eA) reg)"
      using mem lit by (simp add: findSimilarErrors_member words_init words_main)
    show "eA \<in> set (findSimilarErrors (message eB) reg)"
      using mem lit by (simp add: findSimilarErrors_member words_init words_main)
  }
  {
    assume one: "set (significant_words (message eA)) \<inter> set (significant_words (message eB)) = {w}"
    then have one': "set (significant_words (message eB)) \<inter> set (significant_words (message eA)) = {w}"
      by (simp add: Int_commute)
    show "eB \<in> set (findSimilarErrors (message eA) reg)
           \<and> eA \<in> set (findSimilarErrors (message eB) reg)
         \<longleftrightarrow> (3 \<le> count_list (significant_words (message eA)) w
                \<or> length (significant_words (message eA))
                     \<le> 2 * count_list (significant_words (message eA)) w)
             \<and> (3 \<le> count_list (significant_words (message eB)) w
                \<or> length (significant_words (message eB))
                     \<le> 2 * count_list (significant_words (message eB)) w)"
      using mem by (simp add: findSimilarErrors_member common_single [OF one] common_single [OF one'])
  }
qed

theorem literal_pair_and_single_shared_word_witness:
  "(let lit = \<lparr>projectName = ''demo'', version = ''1.0'', createdAt = ''t0'', updatedAt = Some ''t1'',
                 errors = [\<lparr>err_id = ''err_1'', message = ''fooBar is not defined in init.js'',
                            category = ''unknown'', err_context = [], reportedAt = ''t1'', status = ''new'',
                            testGenerated = False, detectedPattern = None, similarErrors = None\<rparr>,
                           \<lparr>err_id = ''err_2'', message = ''fooBar is not defined in main.js'',
                            category = ''unknown'', err_context = [], reportedAt = ''t1'', status = ''new'',
                            testGenerated = False, detectedPattern = None, similarErrors = None\<rparr>],
                 generatedTests = [], patterns = []\<rparr>;
        one = \<lparr>projectName = ''demo'', version = ''1.0'', createdAt = ''t0'', updatedAt = Some ''t1'',
                 errors = [\<lparr>err_id = ''err_1'', message = ''database connection timeout'',
                            category = ''unknown'', err_context = [], reportedAt = ''t1'', status = ''new'',
                            testGenerated = False, detectedPattern = None, similarErrors = None\<rparr>,
                           \<lparr>err_id = ''err_2'', message = ''timeout'',
                            category = ''unknown'', err_context = [], reportedAt = ''t1'', status = ''new'',
                            testGenerated = False, detectedPattern = None, similarErrors = None\<rparr>],
                 generatedTests = [], patterns = []\<rparr>
    in map err_id (findSimilarErrors ''fooBar is not defined in init.js'' lit) = [''err_1'', ''err_2'']
       \<and> map err_id (findSimilarErrors ''fooBar is not defined in main.js'' lit) = [''err_1'', ''err_2'']
       \<and> set (significant_words ''database connection timeout'')
             \<inter> set (significant_words ''timeout'') = {''timeout''}
       \<and> map err_id (findSimilarErrors ''database connection timeout'' one) = [''err_1'']
       \<and> errors one ! 1 \<notin> set (findSimilarErrors (message (errors one ! 0)) one))"
proof -
  define lit where "lit = \<lparr>projectName = ''demo'', version = ''1.0'', createdAt = ''t0'', updatedAt = Some ''t1'',
                 errors = [\<lparr>err_id = ''err_1'', message = ''fooBar is not defined in init.js'',
                            category = ''unknown'', err_context = [], reportedAt = ''t1'', status = ''new'',
                            testGenerated = False, detectedPattern = None, similarErrors = None\<rparr>,
                           \<lparr>err_id = ''err_2'', message = ''fooBar is not defined in main.js'',
                            category = ''unknown'', err_context = [], reportedAt = ''t1'', status = ''new'',
                            testGenerated = False, detectedPattern = None, similarErrors = None\<rparr>],
                 generatedTests = [], patterns = []\<rparr>"
  define one where "one = \<lparr>projectName = ''demo'', version = ''1.0'', createdAt = ''t0'', updatedAt = Some ''t1'',
                 errors = [\<lparr>err_id = ''err_1'', message = ''database connection timeout'',
                            category = ''unknown'', err_context = [], reportedAt = ''t1'', status = ''new'',
                            testGenerated = False, detectedPattern = None, similarErrors = None\<rparr>,
                           \<lparr>err_id = ''err_2'', message = ''timeout'',
                            category = ''unknown'', err_context = [], reportedAt = ''t1'', status = ''new'',
                            testGenerated = False, detectedPattern = None, similarErrors = None\<rparr>],
                 generatedTests = [], patterns = []\<rparr>"
  have lit_errors: "errors lit = [errors lit ! 0, errors lit ! 1]"
    "message (errors lit ! 0) = ''fooBar is not defined in init.js''"
    "message (errors lit ! 1) = ''fooBar is not defined in main.js''"
    unfolding lit_def by simp_all
  have one_errors: "errors one = [errors one ! 0, errors one ! 1]"
    "message (errors one ! 0) = ''database connection timeout''"
    "message (errors one ! 1) = ''timeout''"
    unfolding one_def by simp_all
  have shared: "set (significant_words ''database connection timeout'')
         \<inter> set (significant_words ''timeout'') = {''timeout''}"
    by code_simp
  have counts: "count_list (significant_words ''database connection timeout'') ''timeout'' = 1"
    "length (significant_words ''database connection timeout'') = 3"
    by code_simp+
  have mem_lit: "errors lit ! 0 \<in> set (errors lit)" "errors lit ! 1 \<in> set (errors lit)"
    unfolding lit_def by simp_all
  have mem_one: "errors one ! 0 \<in> set (errors one)" "errors one ! 1 \<in> set (errors one)"
    unfolding one_def by simp_all
  have lit_sim: "errors lit ! 1 \<in> set (findSimilarErrors (message (errors lit ! 0)) lit)
      \<and> errors lit ! 0 \<in> set (findSimilarErrors (message (errors lit ! 1)) lit)"
    using literal_pair_and_single_shared_word [OF mem_lit] lit_errors(2,3) by blast
  have one_sim: "\<not> (errors one ! 1 \<in> set (findSimilarErrors (message (errors one ! 0)) one)
      \<and> errors one ! 0 \<in> set (findSimilarErrors (message (errors one ! 1)) one))"
    using literal_pair_and_single_shared_word [OF mem_one, of "''timeout''"] one_errors(2,3)
      shared counts
    by simp
  have r1: "map err_id (findSimilarErrors ''fooBar is not defined in init.js'' lit) = [''err_1'', ''err_2'']"
    unfolding lit_def by code_simp
  have r2: "map err_id (findSimilarErrors ''fooBar is not defined in main.js'' lit) = [''err_1'', ''err_2'']"
    unfolding lit_def by code_simp
  have r3: "map err_id (findSimilarErrors ''database connection timeout'' one) = [''err_1'']"
    unfolding one_def by code_simp
  have r4: "errors one ! 1 \<notin> set (findSimilarErrors (message (errors one ! 0)) one)"
    using r3 one_errors(2) mem_one one_sim unfolding one_def by auto
  from r1 r2 shared r3 r4 lit_sim show ?thesis
    unfolding lit_def one_def Let_def by simp
qed

text \<open>
  The messages \<^verbatim>\<open>error happened\<close> and \<^verbatim>\<open>error occurred\<close> share only the word
  \<^verbatim>\<open>error\<close>; each has two significant words, the threshold is 1, and each is returned
  for the other.
\<close>

theorem single_shared_word_counterexample:
  "(let reg = \<lparr>projectName = ''demo'', version = ''1.0'', createdAt = ''t0'', updatedAt = Some ''t1'',
              errors = [\<lparr>err_id = ''err_1'', message = ''error happened'',
                         category = ''unknown'', err_context = [], reportedAt = ''t1'', status = ''new'',
                         testGenerated = False, detectedPattern = None, similarErrors = None\<rparr>,
                        \<lparr>err_id = ''err_2'', message = ''error occurred'',
                         category = ''unknown'', err_context = [], reportedAt = ''t1'', status = ''new'',
                         testGenerated = False, detectedPattern = None, similarErrors = None\<rparr>],
              generatedTests = [], patterns = []\<rparr>
    in set (significant_words ''error happened'') \<inter> set (significant_words ''error occurred'')
         = {''error''}
       \<and> map err_id (findSimilarErrors ''error happened'' reg) = [''err_1'', ''err_2'']
       \<and> map err_id (findSimilarErrors ''error occurred'' reg) = [''err_1'', ''err_2''])"
  by code_simp

subsection \<open>Reporting\<close>

lemma generateTestForError_errors:
  "errors (snd (generateTestForError e now r)) = errors r"
  by (auto simp: generateTestForError_def generatePlaywrightTest_def generateESLintCheck_def
      generatePythonTest_def split: option.splits sum.splits prod.splits)

lemma update_last_snoc: "update_last (xs @ [x]) y = xs @ [y]"
  by (simp add: update_last_def)

lemma reportError_Inl:
  assumes "detectPattern msg cat = Inl x"
  shows "reportError msg cat ctx rid now reg = (Inl x, reg)"
  using assms by (simp add: reportError_def)

lemma detectPattern_Inl: "detectPattern msg cat = Inl x \<longleftrightarrow> category_lookup cat = Inherited"
  by (cases x) (simp add: detectPattern_def split: js_prop.splits)

lemma reportError_Inr:
  assumes "detectPattern msg cat = Inr found"
    and "e2 = \<lparr>err_id = rid, message = msg, category = cat, err_context = ctx,
                reportedAt = now, status = ''new'', testGenerated = False,
                detectedPattern = found,
                similarErrors = (if findSimilarErrors msg reg = [] then None
                                 else Some (map err_id (findSimilarErrors msg reg)))\<rparr>"
  shows "reportError msg cat ctx rid now reg =
     (case generateTestForError e2 now (saveRegistry now (reg\<lparr>errors := errors reg @ [e2]\<rparr>)) of
        (Inl e, reg2) \<Rightarrow> (Inl e, reg2)
      | (Inr generated, reg2) \<Rightarrow>
          if generated then
            (Inr (e2\<lparr>testGenerated := True, status := ''test-generated''\<rparr>),
             saveRegistry now (reg2\<lparr>errors := errors reg @
                [e2\<lparr>testGenerated := True, status := ''test-generated''\<rparr>]\<rparr>))
          else (Inr e2, reg2))"
proof -
  obtain out reg2 where g:
    "generateTestForError e2 now (saveRegistry now (reg\<lparr>errors := errors reg @ [e2]\<rparr>)) = (out, reg2)"
    by (cases "generateTestForError e2 now (saveRegistry now (reg\<lparr>errors := errors reg @ [e2]\<rparr>))") auto
  have er: "errors reg2 = errors reg @ [e2]"
    using generateTestForError_errors [of e2 now "saveRegistry now (reg\<lparr>errors := errors reg @ [e2]\<rparr>)"] g
    by (simp add: saveRegistry_def)
  show ?thesis
  proof (cases "findSimilarErrors msg reg = []")
    case True
    with assms g er show ?thesis
      by (simp add: reportError_def Let_def update_last_snoc split: sum.splits)
  next
    case False
    with assms g er show ?thesis
      by (simp add: reportError_def Let_def update_last_snoc split: sum.splits)
  qed
qed


lemma reportError_step:
  assumes "list_all status_consistent (errors reg)"
    and "reportError msg cat ctx rid now reg = (res, reg')"
  shows "list_all status_consistent (errors reg')
     \<and> take (length (errors reg)) (errors reg') = errors reg
     \<and> (\<forall>e. res = Inr e \<longrightarrow>
           errors reg' = errors reg @ [e]
           \<and> ((status e = ''test-generated'') =
               (fst (generateTestForError (e\<lparr>testGenerated := False, status := ''new''\<rparr>) now
                      (saveRegistry now (reg\<lparr>errors := errors reg @
                         [e\<lparr>testGenerated := False, status := ''new''\<rparr>]\<rparr>))) = Inr True)))"
proof (cases "detectPattern msg cat")
  case (Inl x)
  with assms show ?thesis
    by (auto simp: reportError_def)
next
  case (Inr found)
  define e2 where "e2 = \<lparr>err_id = rid, message = msg, category = cat, err_context = ctx,
                reportedAt = now, status = ''new'', testGenerated = False,
                detectedPattern = found,
                similarErrors = (if findSimilarErrors msg reg = [] then None
                                 else Some (map err_id (findSimilarErrors msg reg)))\<rparr>"
  obtain out reg2 where g:
    "generateTestForError e2 now (saveRegistry now (reg\<lparr>errors := errors reg @ [e2]\<rparr>)) = (out, reg2)"
    by (cases "generateTestForError e2 now (saveRegistry now (reg\<lparr>errors := errors reg @ [e2]\<rparr>))") auto
  have er: "errors reg2 = errors reg @ [e2]"
    using generateTestForError_errors [of e2 now "saveRegistry now (reg\<lparr>errors := errors reg @ [e2]\<rparr>)"] g
    by (simp add: saveRegistry_def)
  have fresh: "status e2 = ''new''" "testGenerated e2 = False" "status_consistent e2"
    by (simp_all add: e2_def status_consistent_def)
  have undo: "e2\<lparr>testGenerated := False, status := ''new''\<rparr> = e2"
    by (simp add: e2_def)
  have done_ok: "status_consistent (e2\<lparr>testGenerated := True, status := ''test-generated''\<rparr>)"
    by (simp add: e2_def status_consistent_def)
  have r: "(res, reg') =
     (case out of
        Inl e \<Rightarrow> (Inl e, reg2)
      | Inr generated \<Rightarrow>
          if generated then
            (Inr (e2\<lparr>testGenerated := True, status := ''test-generated''\<rparr>),
             saveRegistry now (reg2\<lparr>errors := errors reg @
                [e2\<lparr>testGenerated := True, status := ''test-generated''\<rparr>]\<rparr>))
          else (Inr e2, reg2))"
    using reportError_Inr [OF Inr e2_def] assms(2) g by simp
  show ?thesis
  proof (cases out)
    case (Inl x)
    with r er assms(1) fresh show ?thesis by simp
  next
    case (Inr generated)
    show ?thesis
    proof (cases generated)
      case True
      with Inr r er assms(1) fresh done_ok g show ?thesis
        by (simp add: saveRegistry_def undo)
    next
      case False
      with Inr r er assms(1) fresh g show ?thesis
        by (simp add: saveRegistry_def undo)
    qed
  qed
qed


lemma report_all_consistent:
  assumes "list_all status_consistent (errors reg)"
  shows "list_all status_consistent (errors (report_all calls now reg))
     \<and> take (length (errors reg)) (errors (report_all calls now reg)) = errors reg"
  using assms
proof (induction calls arbitrary: reg)
  case Nil
  then show ?case by simp
next
  case (Cons call calls)
  obtain msg cat rid where call: "call = (msg, cat, rid)"
    by (cases call) auto
  obtain res reg' where step: "reportError msg cat [] rid now reg = (res, reg')"
    by (cases "reportError msg cat [] rid now reg") auto
  from reportError_step [OF Cons.prems step]
  have inv: "list_all status_consistent (errors reg')"
    and old: "take (length (errors reg)) (errors reg') = errors reg"
    by simp_all
  from Cons.IH [OF inv]
  have inv': "list_all status_consistent (errors (report_all calls now reg'))"
    and old': "take (length (errors reg')) (errors (report_all calls now reg')) = errors reg'"
    by simp_all
  have "take (length (errors reg)) (errors (report_all calls now reg')) = errors reg"
  proof -
    have "length (errors reg) \<le> length (errors reg')"
      using arg_cong [OF old, of length] by simp
    then have "take (length (errors reg)) (errors (report_all calls now reg'))
        = take (length (errors reg)) (take (length (errors reg')) (errors (report_all calls now reg')))"
      by (simp add: min_absorb1)
    with old old' show ?thesis by simp
  qed
  with inv' show ?case
    by (simp add: call step)
qed

text \<open>
  C4. A call of \<^verbatim>\<open>reportError\<close> on a registry whose records are consistent leaves
  every record consistent, whether it returns or throws. The records already present are
  not touched, so none of them changes its status again. The record returned is the one
  appended, and its status is \<^verbatim>\<open>test-generated\<close> exactly when the synthesis attempt on
  the record as it was pushed (status \<^verbatim>\<open>new\<close>, flag unset) returned true. The same
  holds along every sequence of calls, and so for every registry built from the empty one.
\<close>

theorem status_tracks_synthesis:
  assumes "list_all status_consistent (errors reg)"
    and "reportError msg cat ctx rid now reg = (res, reg')"
  shows "list_all status_consistent (errors reg')
     \<and> take (length (errors reg)) (errors reg') = errors reg
     \<and> (\<forall>e. res = Inr e \<longrightarrow>
           errors reg' = errors reg @ [e]
           \<and> ((status e = ''test-generated'') =
               (fst (generateTestForError (e\<lparr>testGenerated := False, status := ''new''\<rparr>) now
                      (saveRegistry now (reg\<lparr>errors := errors reg @
                         [e\<lparr>testGenerated := False, status := ''new''\<rparr>]\<rparr>))) = Inr True)))
     \<and> list_all status_consistent (errors (report_all calls now reg))
     \<and> take (length (errors reg)) (errors (report_all calls now reg)) = errors reg
     \<and> list_all status_consistent (errors (report_all calls now (initial_registry name created)))"
proof -
  have fresh: "list_all status_consistent (errors (initial_registry name created))"
    by (simp add: initial_registry_def)
  from reportError_step [OF assms] report_all_consistent [OF assms(1)]
    report_all_consistent [OF fresh]
  show ?thesis by simp
qed

theorem status_tracks_synthesis_witness:
  "(let reg = \<lparr>projectName = ''demo'', version = ''1.0'', createdAt = ''t0'', updatedAt = Some ''t1'',
                errors = [\<lparr>err_id = ''err_1'', message = ''timeout'',
                           category = ''unknown'', err_context = [], reportedAt = ''t1'', status = ''new'',
                           testGenerated = False, detectedPattern = None, similarErrors = None\<rparr>],
                generatedTests = [], patterns = []\<rparr>;
        out = reportError ''ModuleNotFoundError: No module named 'requests' in app.py''
                ''python-import'' [] ''err_2'' ''t2'' reg
    in list_all status_consistent (errors reg)
       \<and> list_all status_consistent (errors (snd out))
       \<and> take (length (errors reg)) (errors (snd out)) = errors reg
       \<and> map status (errors (snd out)) = [''new'', ''test-generated'']
       \<and> map testGenerated (errors (snd out)) = [False, True]
       \<and> map testName (generatedTests (snd out)) = [''test_module_requests_importable''])"
proof -
  define reg where "reg = \<lparr>projectName = ''demo'', version = ''1.0'', createdAt = ''t0'', updatedAt = Some ''t1'',
                errors = [\<lparr>err_id = ''err_1'', message = ''timeout'',
                           category = ''unknown'', err_context = [], reportedAt = ''t1'', status = ''new'',
                           testGenerated = False, detectedPattern = None, similarErrors = None\<rparr>],
                generatedTests = [], patterns = []\<rparr>"
  define out where "out = reportError ''ModuleNotFoundError: No module named 'requests' in app.py''
                ''python-import'' [] ''err_2'' ''t2'' reg"
  have inv: "list_all status_consistent (errors reg)"
    unfolding reg_def by (simp add: status_consistent_def)
  have call: "reportError ''ModuleNotFoundError: No module named 'requests' in app.py''
                ''python-import'' [] ''err_2'' ''t2'' reg = (fst out, snd out)"
    unfolding out_def by simp
  have vals: "map status (errors (snd out)) = [''new'', ''test-generated'']"
    "map testGenerated (errors (snd out)) = [False, True]"
    "map testName (generatedTests (snd out)) = [''test_module_requests_importable'']"
    unfolding out_def reg_def by code_simp+
  from status_tracks_synthesis [OF inv call] inv vals show ?thesis
    unfolding out_def reg_def Let_def by simp
qed

lemma first_rule_testType:
  "first_rule m tt rules = Some p \<Longrightarrow> p_testType p = tt"
  by (induction rules) (auto split: option.splits)

lemma detectPattern_testType:
  assumes "detectPattern m cat = Inr (Some p)"
  shows "\<exists>cfg. category_lookup cat = Own cfg \<and> p_testType p = cfg_testType cfg"
  using assms by (auto simp: detectPattern_def first_rule_testType split: js_prop.splits)

lemma js_match_result:
  "js_match r s = Some (m, caps) \<Longrightarrow> \<exists>t rest. (caps, rest) \<in> set (rx_match r t)"
proof (induction s)
  case Nil
  then show ?case
    by (auto simp: exec_at_def split: list.splits) (metis list.set_intros(1))
next
  case (Cons c s)
  then show ?case
    by (auto simp: exec_at_def split: list.splits option.splits) (metis list.set_intros(1))
qed

lemma word_group_captures:
  "(caps, rest) \<in> set (rx_match (Seq word_group (Lit l)) t) \<Longrightarrow> length caps = 1"
  by (auto simp: word_group_def split: if_splits)

lemma playwright_config:
  assumes "category_lookup cat = Own cfg" and "cfg_testType cfg = ''playwright''"
  shows "cfg_patterns cfg =
         [(Seq word_group (Lit '' is not defined''), ''variableName''),
          (Seq (Lit ''Cannot read propert'')
             (Seq (Grp (Alt (Lit ''y'') (Lit ''ies'')))
                (Seq (Lit '' of '') (Grp (Alt (Lit ''null'') (Lit ''undefined''))))),
           ''nullAccess''),
          (Seq (Lit ''Cannot access '') (Seq (Lit [CHR 0x27])
             (Seq word_group (Seq (Lit [CHR 0x27]) (Lit '' before initialization'')))),
           ''temporalDeadZone''),
          (Seq word_group (Lit '' is not a function''), ''notFunction'')]"
proof -
  from assms(1) have "map_of ERROR_CATEGORIES cat = Some cfg"
    by (simp add: category_lookup_def split: option.splits if_splits)
  then have "(cat, cfg) \<in> set ERROR_CATEGORIES"
    by (rule map_of_SomeD)
  with assms(2) show ?thesis
    by (auto simp: ERROR_CATEGORIES_def)
qed

lemma detected_variable_has_capture:
  assumes "detectPattern msg cat = Inr (Some p)" and "p_testType p = ''playwright''"
    and "p_type p = ''variableName''"
  shows "first_capture (p_captures p) \<noteq> None"
proof -
  from detectPattern_testType [OF assms(1)] assms(2)
  obtain cfg where cfg: "category_lookup cat = Own cfg" "cfg_testType cfg = ''playwright''"
    by auto
  from assms(1) cfg have fr: "first_rule msg ''playwright'' (cfg_patterns cfg) = Some p"
    by (simp add: detectPattern_def)
  have "\<exists>m caps. js_match (Seq word_group (Lit '' is not defined'')) msg = Some (m, caps)
          \<and> p_captures p = caps"
    using fr assms(3) unfolding playwright_config [OF cfg]
    by (auto split: option.splits)
  then obtain m caps where "js_match (Seq word_group (Lit '' is not defined'')) msg = Some (m, caps)"
      and "p_captures p = caps"
    by blast
  with js_match_result word_group_captures have "length (p_captures p) = 1"
    by blast
  then show ?thesis
    by (cases "p_captures p") (simp_all add: first_capture_def)
qed

text \<open>
  \<^verbatim>\<open>reportError\<close> throws exactly for the categories that name a property inherited
  from \<^verbatim>\<open>Object.prototype\<close>: a pattern of kind \<^verbatim>\<open>variableName\<close> that reaches the
  Playwright generator always carries its capture.
\<close>

lemma reportError_throws_iff:
  "(\<exists>x. fst (reportError msg cat ctx rid now reg) = Inl x) \<longleftrightarrow> category_lookup cat = Inherited"
proof (cases "detectPattern msg cat")
  case (Inl x)
  then show ?thesis
    using reportError_Inl [OF Inl] detectPattern_Inl [of msg cat x] by simp
next
  case (Inr found)
  then have not_inh: "category_lookup cat \<noteq> Inherited"
    using detectPattern_Inl [of msg cat TypeError] by simp
  have "\<not> (\<exists>x. fst (reportError msg cat ctx rid now reg) = Inl x)"
  proof (cases found)
    case None
    with Inr show ?thesis
      by (simp add: reportError_Inr [OF Inr refl] generateTestForError_def)
  next
    case (Some p)
    have capt: "p_testType p = ''playwright'' \<Longrightarrow> p_type p = ''variableName''
        \<Longrightarrow> first_capture (p_captures p) \<noteq> None"
      using detected_variable_has_capture Inr Some by blast
    show ?thesis
      unfolding reportError_Inr [OF Inr refl] using Some capt
      by (auto simp: generateTestForError_def generatePlaywrightTest_def generateESLintCheck_def
          generatePythonTest_def playwright_switch_def Let_def
          split: option.splits sum.splits prod.splits if_splits)
  qed
  with not_inh show ?thesis by simp
qed

lemma lookup_constructor: "category_lookup ''constructor'' = Inherited"
  by code_simp

lemma lookup_unrecognized: "category_lookup ''totally-unrecognized'' = Undefined"
  by code_simp

lemma reportError_undefined_category:
  assumes "category_lookup cat = Undefined"
  shows "\<exists>e. reportError msg cat ctx rid now reg
              = (Inr e, reg\<lparr>errors := errors reg @ [e], updatedAt := Some now\<rparr>)
           \<and> detectedPattern e = None \<and> testGenerated e = False \<and> status e = ''new''
           \<and> message e = msg \<and> category e = cat \<and> err_id e = rid"
proof -
  have d: "detectPattern msg cat = Inr None"
    using assms by (simp add: detectPattern_def)
  show ?thesis
    by (simp add: reportError_Inr [OF d refl] generateTestForError_def saveRegistry_def)
qed

text \<open>
  The literal case: the category \<^verbatim>\<open>totally-unrecognized\<close> is neither a key of the
  taxonomy nor a property of \<^verbatim>\<open>Object.prototype\<close>; the record is stored without a
  detected pattern, with the flag unset and the status \<^verbatim>\<open>new\<close>, and nothing is thrown.
\<close>

lemma unrecognised_category_stored:
  "\<exists>e. reportError msg ''totally-unrecognized'' ctx rid now reg
              = (Inr e, reg\<lparr>errors := errors reg @ [e], updatedAt := Some now\<rparr>)
           \<and> detectedPattern e = None \<and> testGenerated e = False \<and> status e = ''new''"
  using reportError_undefined_category [OF lookup_unrecognized, of msg ctx rid now reg] by blast

text \<open>
  C5 at the category \<^verbatim>\<open>constructor\<close>. The name is not a key of the taxonomy, but
  \<^verbatim>\<open>ERROR_CATEGORIES['constructor']\<close> is the inherited function \<^verbatim>\<open>Object\<close>, which
  passes the check for an unknown category; \<^verbatim>\<open>detectPattern\<close> throws a TypeError on
  its missing \<^verbatim>\<open>patterns\<close>, \<^verbatim>\<open>reportError\<close> passes the exception on to its caller, and
  no record is stored.
\<close>

theorem inherited_category_throws:
  "map_of ERROR_CATEGORIES ''constructor'' = None
   \<and> detectPattern msg ''constructor'' = Inl TypeError
   \<and> reportError msg ''constructor'' ctx rid now reg = (Inl TypeError, reg)"
proof -
  have absent: "map_of ERROR_CATEGORIES ''constructor'' = None"
    by code_simp
  have thrown: "detectPattern msg ''constructor'' = Inl TypeError"
    by (simp add: detectPattern_def lookup_constructor)
  from absent thrown reportError_Inl [OF thrown] show ?thesis
    by simp
qed

subsection \<open>Fragment names\<close>

lemma added_names:
  assumes "detectedPattern e1 = Some p1" "detectedPattern e2 = Some p2"
    and "p_testType p1 = p_testType p2" "p_type p1 = p_type p2"
    and "first_capture (p_captures p1) = first_capture (p_captures p2)"
  shows "map testName (drop (length (generatedTests r1))
                         (generatedTests (snd (generateTestForError e1 n1 r1))))
       = map testName (drop (length (generatedTests r2))
                         (generatedTests (snd (generateTestForError e2 n2 r2))))"
  using assms
  by (auto simp: generateTestForError_def generatePlaywrightTest_def generateESLintCheck_def
      generatePythonTest_def playwright_switch_def python_switch_def Let_def
      split: option.splits sum.splits)

lemma reportError_generatedTests:
  assumes "detectPattern msg cat = Inr found"
  shows "\<exists>e r. detectedPattern e = found \<and> generatedTests r = generatedTests reg
      \<and> generatedTests (snd (reportError msg cat ctx rid now reg))
          = generatedTests (snd (generateTestForError e now r))"
proof -
  define e2 where "e2 = \<lparr>err_id = rid, message = msg, category = cat, err_context = ctx,
                reportedAt = now, status = ''new'', testGenerated = False,
                detectedPattern = found,
                similarErrors = (if findSimilarErrors msg reg = [] then None
                                 else Some (map err_id (findSimilarErrors msg reg)))\<rparr>"
  define r where "r = saveRegistry now (reg\<lparr>errors := errors reg @ [e2]\<rparr>)"
  have "generatedTests (snd (reportError msg cat ctx rid now reg))
          = generatedTests (snd (generateTestForError e2 now r))"
    unfolding reportError_Inr [OF assms e2_def] r_def
    by (auto simp: saveRegistry_def split: prod.splits sum.splits)
  moreover have "detectedPattern e2 = found" "generatedTests r = generatedTests reg"
    by (simp_all add: e2_def r_def saveRegistry_def)
  ultimately show ?thesis by blast
qed

text \<open>
  C9. Two reports of one category whose detected patterns have the same extraction kind
  and the same first capture add fragments of the same names to their registries (both
  add one fragment with one name, or both add none), whatever the messages, identifiers,
  times and registries are. The category fixes the test kind, and within one test kind
  the name is computed from the kind and the first capture alone.
\<close>

theorem same_kind_and_capture_same_name:
  assumes "detectPattern m1 cat = Inr (Some p1)" and "detectPattern m2 cat = Inr (Some p2)"
    and "p_type p1 = p_type p2"
    and "first_capture (p_captures p1) = first_capture (p_captures p2)"
  shows "map testName (drop (length (generatedTests reg1))
                         (generatedTests (snd (reportError m1 cat ctx1 rid1 now1 reg1))))
       = map testName (drop (length (generatedTests reg2))
                         (generatedTests (snd (reportError m2 cat ctx2 rid2 now2 reg2))))"
proof -
  from detectPattern_testType [OF assms(1)] detectPattern_testType [OF assms(2)]
  have tt: "p_testType p1 = p_testType p2" by auto
  obtain e1 r1 where 1: "detectedPattern e1 = Some p1" "generatedTests r1 = generatedTests reg1"
      "generatedTests (snd (reportError m1 cat ctx1 rid1 now1 reg1))
          = generatedTests (snd (generateTestForError e1 now1 r1))"
    using reportError_generatedTests [OF assms(1)] by blast
  obtain e2 r2 where 2: "detectedPattern e2 = Some p2" "generatedTests r2 = generatedTests reg2"
      "generatedTests (snd (reportError m2 cat ctx2 rid2 now2 reg2))
          = generatedTests (snd (generateTestForError e2 now2 r2))"
    using reportError_generatedTests [OF assms(2)] by blast
  from added_names [OF 1(1) 2(1) tt assms(3,4), of r1 now1 r2 now2] 1(2,3) 2(2,3)
  show ?thesis by simp
qed

theorem same_kind_and_capture_same_name_witness:
  "(let m1 = ''NameError: name 'foo' is not defined'';
        m2 = ''Traceback: NameError: name 'foo' is not defined in app.py'';
        p = \<lparr>p_type = ''variableName'', p_match = ''NameError: name 'foo' is not defined'',
             p_captures = [''foo''], p_testType = ''python''\<rparr>;
        reg1 = initial_registry ''demo'' ''t0'';
        reg2 = initial_registry ''other'' ''t5''
    in detectPattern m1 ''python-runtime'' = Inr (Some p)
       \<and> detectPattern m2 ''python-runtime'' = Inr (Some p)
       \<and> map testName (drop (length (generatedTests reg1))
             (generatedTests (snd (reportError m1 ''python-runtime'' [] ''err_1'' ''t1'' reg1))))
           = [''test_variable_foo_defined'']
       \<and> map testName (drop (length (generatedTests reg2))
             (generatedTests (snd (reportError m2 ''python-runtime'' [] ''err_7'' ''t6'' reg2))))
           = [''test_variable_foo_defined''])"
proof -
  define m1 where "m1 = ''NameError: name 'foo' is not defined''"
  define m2 where "m2 = ''Traceback: NameError: name 'foo' is not defined in app.py''"
  define p where "p = \<lparr>p_type = ''variableName'', p_match = ''NameError: name 'foo' is not defined'',
             p_captures = [''foo''], p_testType = ''python''\<rparr>"
  define reg1 where "reg1 = initial_registry ''demo'' ''t0''"
  define reg2 where "reg2 = initial_registry ''other'' ''t5''"
  have d1: "detectPattern m1 ''python-runtime'' = Inr (Some p)"
    unfolding m1_def p_def by code_simp
  have d2: "detectPattern m2 ''python-runtime'' = Inr (Some p)"
    unfolding m2_def p_def by code_simp
  have n1: "map testName (drop (length (generatedTests reg1))
             (generatedTests (snd (reportError m1 ''python-runtime'' [] ''err_1'' ''t1'' reg1))))
           = [''test_variable_foo_defined'']"
    unfolding m1_def reg1_def by code_simp
  from same_kind_and_capture_same_name [OF d1 d2 refl refl, of reg1 "[]" "''err_1''" "''t1''"
      reg2 "[]" "''err_7''" "''t6''"] n1
  have n2: "map testName (drop (length (generatedTests reg2))
             (generatedTests (snd (reportError m2 ''python-runtime'' [] ''err_7'' ''t6'' reg2))))
           = [''test_variable_foo_defined'']"
    by simp
  from d1 d2 n1 n2 show ?thesis
    unfolding m1_def m2_def p_def reg1_def reg2_def Let_def by simp
qed

subsection \<open>Export\<close>

lemma starts_with_append: "starts_with (n @ q) n"
  by (induction n) auto

lemma includes_starts: "starts_with s n \<Longrightarrow> includes_str s n"
  by (cases s) (auto elim: starts_with.elims)

lemma includes_head: "includes_str (n @ q) n"
  by (rule includes_starts) (rule starts_with_append)

lemma includes_right: "includes_str b n \<Longrightarrow> includes_str (a @ b) n"
  by (induction a) auto

lemma starts_with_left: "starts_with a n \<Longrightarrow> starts_with (a @ b) n"
  by (induction a n rule: starts_with.induct) auto

lemma includes_left: "includes_str a n \<Longrightarrow> includes_str (a @ b) n"
proof (induction a)
  case Nil
  then show ?case by (simp add: includes_head [of "[]" b, simplified])
next
  case (Cons x a)
  then show ?case
    using starts_with_left [of "x # a" n b] by auto
qed

lemma includes_mid: "includes_str b n \<Longrightarrow> includes_str ((a @ b) @ c) n"
  by (simp add: includes_left includes_right)

lemma includes_python_file:
  "includes_str body n \<Longrightarrow> includes_str (python_file_content body) n"
  unfolding python_file_content_def append_assoc [symmetric] by (rule includes_mid)

lemma includes_playwright_file:
  "includes_str body n \<Longrightarrow> includes_str (playwright_file_content body) n"
  unfolding playwright_file_content_def append_assoc [symmetric] 
  by (rule includes_left) (rule includes_mid)

lemma includes_variable_testCode: "includes_str (variable_testCode n c) n"
  unfolding variable_testCode_def
  by (rule includes_right, rule includes_right, rule includes_head)

lemma includes_module_testCode: "includes_str (module_testCode n c) n"
  unfolding module_testCode_def
  by (rule includes_right, rule includes_right, rule includes_head)

lemma includes_playwright_testCode: "includes_str (playwright_testCode n c) n"
  unfolding playwright_testCode_def
  by (rule includes_right, rule includes_right, rule includes_right, rule includes_right,
      rule includes_head)

lemma starts_with_subset: "starts_with t m \<Longrightarrow> set m \<subseteq> set t"
  by (induction t m rule: starts_with.induct) auto

lemma includes_subset: "includes_str s n \<Longrightarrow> set n \<subseteq> set s"
proof (induction s)
  case Nil
  then show ?case by simp
next
  case (Cons x s)
  from Cons.prems have "starts_with (x # s) n \<or> includes_str s n"
    by simp
  then show ?case
  proof
    assume "starts_with (x # s) n"
    then show ?thesis by (rule starts_with_subset)
  next
    assume "includes_str s n"
    with Cons.IH show ?thesis by auto
  qed
qed

lemma reportError_python_fragment:
  assumes "detectPattern msg cat = Inr (Some p)" and "p_testType p = ''python''"
    and "python_switch p = Some (name, code)"
  shows "generatedTests (snd (reportError msg cat ctx rid now reg))
       = generatedTests reg @
           [\<lparr>errorId = rid, testName = name, testCode = code, testType = ''python'',
             generatedAt = now\<rparr>]"
  unfolding reportError_Inr [OF assms(1) refl]
  using assms(2,3)
  by (simp add: generateTestForError_def generatePythonTest_def saveRegistry_def)

lemma reportError_playwright_fragment:
  assumes "detectPattern msg cat = Inr (Some p)" and "p_testType p = ''playwright''"
    and "playwright_switch p = Inr (Some (name, checkCode))"
  shows "generatedTests (snd (reportError msg cat ctx rid now reg))
       = generatedTests reg @
           [\<lparr>errorId = rid, testName = name, testCode = playwright_testCode name checkCode,
             testType = ''playwright'', generatedAt = now\<rparr>]"
  unfolding reportError_Inr [OF assms(1) refl]
  using assms(2,3)
  by (simp add: generateTestForError_def generatePlaywrightTest_def saveRegistry_def)

lemma detect_foo:
  "detectPattern ''NameError: name 'foo' is not defined'' ''python-runtime'' =
     Inr (Some \<lparr>p_type = ''variableName'', p_match = ''NameError: name 'foo' is not defined'',
                p_captures = [''foo''], p_testType = ''python''\<rparr>)"
  by code_simp

lemma detect_bar:
  "detectPattern ''NameError: name 'bar' is not defined'' ''python-runtime'' =
     Inr (Some \<lparr>p_type = ''variableName'', p_match = ''NameError: name 'bar' is not defined'',
                p_captures = [''bar''], p_testType = ''python''\<rparr>)"
  by code_simp

lemma python_variable_switch:
  "python_switch \<lparr>p_type = ''variableName'', p_match = m, p_captures = [c], p_testType = t\<rparr>
     = Some (''test_variable_'' @ c @ ''_defined'',
             variable_testCode (''test_variable_'' @ c @ ''_defined'') c)"
  by (simp add: python_switch_def first_capture_def interpolate_def Let_def)

lemma bar_not_in_foo_file:
  "\<not> includes_str
        (python_file_content (variable_testCode ''test_variable_foo_defined'' ''foo''))
        ''test_variable_bar_defined''"
  by code_simp

lemma foo_not_in_bar_file:
  "\<not> includes_str
        (python_file_content (variable_testCode ''test_variable_bar_defined'' ''bar''))
        ''test_variable_foo_defined''"
  by code_simp

text \<open>
  C1 on a run of the command line. One failure is reported and exported: the test file
  holds the test for \<^verbatim>\<open>foo\<close>. A second failure is reported. The next export finds
  the name of the first test in the file, keeps only the second test as new, and writes a
  file that holds the second test alone. The export after that finds only the second name
  in the file and writes a file that holds the first test alone. Exporting twice does not
  give the file that exporting once gives: \<^verbatim>\<open>writeFileSync\<close> replaces the file the
  names were looked up in.
\<close>

theorem second_export_rewrites_file:
  "(let reg1 = report_all [(''NameError: name 'foo' is not defined'', ''python-runtime'', ''err_1'')]
                 ''t1'' (initial_registry ''demo'' ''t0'');
        files1 = snd (exportTests reg1 \<lparr>playwright_file = None, python_file = None\<rparr>);
        reg2 = report_all [(''NameError: name 'bar' is not defined'', ''python-runtime'', ''err_2'')]
                 ''t2'' reg1;
        once = snd (exportTests reg2 files1);
        twice = snd (exportTests reg2 once)
    in map testName (generatedTests reg2)
         = [''test_variable_foo_defined'', ''test_variable_bar_defined'']
       \<and> python_file files1
           = Some (python_file_content (variable_testCode ''test_variable_foo_defined'' ''foo''))
       \<and> includes_str (the (python_file files1)) ''test_variable_foo_defined''
       \<and> python_file once
           = Some (python_file_content (variable_testCode ''test_variable_bar_defined'' ''bar''))
       \<and> python_file twice
           = Some (python_file_content (variable_testCode ''test_variable_foo_defined'' ''foo''))
       \<and> python_file once \<noteq> python_file twice)"
proof -
  define A where "A = \<lparr>errorId = ''err_1'', testName = ''test_variable_foo_defined'',
      testCode = variable_testCode ''test_variable_foo_defined'' ''foo'', testType = ''python'',
      generatedAt = ''t1''\<rparr>"
  define B where "B = \<lparr>errorId = ''err_2'', testName = ''test_variable_bar_defined'',
      testCode = variable_testCode ''test_variable_bar_defined'' ''bar'', testType = ''python'',
      generatedAt = ''t2''\<rparr>"
  define reg1 where "reg1 = report_all
      [(''NameError: name 'foo' is not defined'', ''python-runtime'', ''err_1'')]
      ''t1'' (initial_registry ''demo'' ''t0'')"
  define reg2 where "reg2 = report_all
      [(''NameError: name 'bar' is not defined'', ''python-runtime'', ''err_2'')] ''t2'' reg1"
  define fileA where "fileA = python_file_content (testCode A)"
  define fileB where "fileB = python_file_content (testCode B)"
  have gen1: "generatedTests reg1 = [A]"
    unfolding reg1_def A_def
    by (simp add: reportError_python_fragment [OF detect_foo _ python_variable_switch]
        initial_registry_def)
  have gen2: "generatedTests reg2 = [A, B]"
    unfolding reg2_def B_def
    by (simp add: reportError_python_fragment [OF detect_bar _ python_variable_switch] gen1)
  have inA: "includes_str fileA (testName A)" and inB: "includes_str fileB (testName B)"
    unfolding fileA_def fileB_def A_def B_def
    by (simp_all add: includes_python_file includes_variable_testCode)
  have notB: "\<not> includes_str fileA (testName B)"
    unfolding fileA_def A_def B_def using bar_not_in_foo_file by simp
  have notA: "\<not> includes_str fileB (testName A)"
    unfolding fileB_def A_def B_def using foo_not_in_bar_file by simp
  have types: "testType A = ''python''" "testType B = ''python''"
    by (simp_all add: A_def B_def)
  have first: "snd (exportTests reg1 \<lparr>playwright_file = None, python_file = None\<rparr>)
      = \<lparr>playwright_file = None, python_file = Some fileA\<rparr>"
    by (simp add: exportTests_def exportPythonTests_def gen1 types fileA_def Let_def A_def)
  have second: "snd (exportTests reg2 \<lparr>playwright_file = None, python_file = Some fileA\<rparr>)
      = \<lparr>playwright_file = None, python_file = Some fileB\<rparr>"
    using inA notB
    by (simp add: exportTests_def exportPythonTests_def gen2 types fileB_def Let_def)
  have third: "snd (exportTests reg2 \<lparr>playwright_file = None, python_file = Some fileB\<rparr>)
      = \<lparr>playwright_file = None, python_file = Some fileA\<rparr>"
    using inB notA
    by (simp add: exportTests_def exportPythonTests_def gen2 types fileA_def Let_def)
  have differ: "fileB \<noteq> fileA"
    using inA notA by auto
  have names: "map testName (generatedTests reg2)
         = [''test_variable_foo_defined'', ''test_variable_bar_defined'']"
    by (simp add: gen2 A_def B_def)
  have texts: "fileA = python_file_content (variable_testCode ''test_variable_foo_defined'' ''foo'')"
    "fileB = python_file_content (variable_testCode ''test_variable_bar_defined'' ''bar'')"
    by (simp_all add: fileA_def fileB_def A_def B_def)
  have inA': "includes_str fileA ''test_variable_foo_defined''"
    using inA by (simp add: A_def)
  show ?thesis
    unfolding Let_def reg1_def [symmetric] reg2_def [symmetric] first second third
    using names texts inA' differ by simp
qed

lemma detect_fooBar:
  "detectPattern ''fooBar is not defined'' ''js-runtime'' =
     Inr (Some \<lparr>p_type = ''variableName'', p_match = ''fooBar is not defined'',
                p_captures = [''fooBar''], p_testType = ''playwright''\<rparr>)"
  by code_simp

lemma detect_render:
  "detectPattern ''render is not a function'' ''js-runtime'' =
     Inr (Some \<lparr>p_type = ''notFunction'', p_match = ''render is not a function'',
                p_captures = [''render''], p_testType = ''playwright''\<rparr>)"
  by code_simp

lemma upper_f: "upper_char CHR ''f'' = CHR ''F''"
  by code_simp

lemma switch_fooBar:
  "playwright_switch \<lparr>p_type = ''variableName'', p_match = m, p_captures = [''fooBar''],
                       p_testType = t\<rparr>
     = Inr (Some (''variable_fooBar_accessible'', variable_check ''fooBar'' ''getFooBar''))"
  by (simp add: playwright_switch_def first_capture_def Let_def upper_f)

lemma switch_render:
  "playwright_switch \<lparr>p_type = ''notFunction'', p_match = m, p_captures = [''render''],
                       p_testType = t\<rparr>
     = Inr (Some (''function_render_exists'', function_check ''render''))"
  by (simp add: playwright_switch_def first_capture_def interpolate_def Let_def)

lemma no_hash_in_render_file:
  "CHR ''#'' \<notin> set (playwright_file_content
                        (playwright_testCode ''function_render_exists'' (function_check ''render'')))"
  unfolding playwright_file_content_def playwright_testCode_def function_check_def
    set_append Un_iff de_Morgan_disj
  by simp

lemma no_bang_in_bar_file:
  "CHR ''!'' \<notin> set (python_file_content
                        (variable_testCode ''test_variable_bar_defined'' ''bar''))"
  unfolding python_file_content_def variable_testCode_def set_append Un_iff de_Morgan_disj
  by simp

text \<open>
  C2 on test files that mention a generated test. Two Playwright tests and two Python
  tests have been generated; each test file holds a line written by hand that names the
  first test of its kind. The export skips the named test and keeps the other one, as the
  specification says. It does not append: \<^verbatim>\<open>writeFileSync\<close> replaces each file by the
  envelope around the kept test, so the text that was in the file is no longer in it, and
  the test taken to be exported already is not in the file either.
\<close>

theorem export_drops_existing_text:
  "(let reg = report_all [(''fooBar is not defined'', ''js-runtime'', ''err_1''),
                          (''render is not a function'', ''js-runtime'', ''err_2''),
                          (''NameError: name 'foo' is not defined'', ''python-runtime'', ''err_3''),
                          (''NameError: name 'bar' is not defined'', ''python-runtime'', ''err_4'')]
                ''t1'' (initial_registry ''demo'' ''t0'');
        spec_js = ''// issue #12: variable_fooBar_accessible is checked by hand'';
        test_py = ''# checked by hand! see test_variable_foo_defined'';
        files = snd (exportTests reg \<lparr>playwright_file = Some spec_js, python_file = Some test_py\<rparr>)
    in map testName (generatedTests reg)
         = [''variable_fooBar_accessible'', ''function_render_exists'',
            ''test_variable_foo_defined'', ''test_variable_bar_defined'']
       \<and> includes_str spec_js ''variable_fooBar_accessible''
       \<and> \<not> includes_str spec_js ''function_render_exists''
       \<and> includes_str test_py ''test_variable_foo_defined''
       \<and> \<not> includes_str test_py ''test_variable_bar_defined''
       \<and> playwright_file files
           = Some (playwright_file_content
                     (playwright_testCode ''function_render_exists'' (function_check ''render'')))
       \<and> python_file files
           = Some (python_file_content (variable_testCode ''test_variable_bar_defined'' ''bar''))
       \<and> \<not> includes_str (the (playwright_file files)) spec_js
       \<and> \<not> includes_str (the (python_file files)) test_py
       \<and> \<not> includes_str (the (python_file files)) ''test_variable_foo_defined'')"
proof -
  define A where "A = \<lparr>errorId = ''err_1'', testName = ''variable_fooBar_accessible'',
      testCode = playwright_testCode ''variable_fooBar_accessible''
                   (variable_check ''fooBar'' ''getFooBar''),
      testType = ''playwright'', generatedAt = ''t1''\<rparr>"
  define B where "B = \<lparr>errorId = ''err_2'', testName = ''function_render_exists'',
      testCode = playwright_testCode ''function_render_exists'' (function_check ''render''),
      testType = ''playwright'', generatedAt = ''t1''\<rparr>"
  define C where "C = \<lparr>errorId = ''err_3'', testName = ''test_variable_foo_defined'',
      testCode = variable_testCode ''test_variable_foo_defined'' ''foo'', testType = ''python'',
      generatedAt = ''t1''\<rparr>"
  define D where "D = \<lparr>errorId = ''err_4'', testName = ''test_variable_bar_defined'',
      testCode = variable_testCode ''test_variable_bar_defined'' ''bar'', testType = ''python'',
      generatedAt = ''t1''\<rparr>"
  define reg where "reg = report_all [(''fooBar is not defined'', ''js-runtime'', ''err_1''),
                          (''render is not a function'', ''js-runtime'', ''err_2''),
                          (''NameError: name 'foo' is not defined'', ''python-runtime'', ''err_3''),
                          (''NameError: name 'bar' is not defined'', ''python-runtime'', ''err_4'')]
                ''t1'' (initial_registry ''demo'' ''t0'')"
  define spec_js where "spec_js = ''// issue #12: variable_fooBar_accessible is checked by hand''"
  define test_py where "test_py = ''# checked by hand! see test_variable_foo_defined''"
  define fileB where "fileB = playwright_file_content (testCode B)"
  define fileD where "fileD = python_file_content (testCode D)"
  have gen: "generatedTests reg = [A, B, C, D]"
    unfolding reg_def A_def B_def C_def D_def
    by (simp add: reportError_playwright_fragment [OF detect_fooBar _ switch_fooBar]
        reportError_playwright_fragment [OF detect_render _ switch_render]
        reportError_python_fragment [OF detect_foo _ python_variable_switch]
        reportError_python_fragment [OF detect_bar _ python_variable_switch]
        initial_registry_def)
  have inA: "includes_str spec_js (testName A)"
    unfolding spec_js_def A_def by code_simp
  have notB: "\<not> includes_str spec_js (testName B)"
    unfolding spec_js_def B_def by code_simp
  have inC: "includes_str test_py (testName C)"
    unfolding test_py_def C_def by code_simp
  have notD: "\<not> includes_str test_py (testName D)"
    unfolding test_py_def D_def by code_simp
  have pw: "filter (\<lambda>t. testType t = ''playwright'') (generatedTests reg) = [A, B]"
    and py: "filter (\<lambda>t. testType t = ''python'') (generatedTests reg) = [C, D]"
    unfolding gen by (simp_all add: A_def B_def C_def D_def)
  have pw_written: "exportPlaywrightTests [A, B] (Some spec_js) = Some fileB"
    using inA notB by (simp add: exportPlaywrightTests_def fileB_def Let_def)
  have py_written: "exportPythonTests [C, D] (Some test_py) = Some fileD"
    using inC notD by (simp add: exportPythonTests_def fileD_def Let_def)
  have exported: "snd (exportTests reg \<lparr>playwright_file = Some spec_js, python_file = Some test_py\<rparr>)
      = \<lparr>playwright_file = Some fileB, python_file = Some fileD\<rparr>"
    unfolding exportTests_def Let_def pw py
    by (simp add: pw_written py_written)
  have hash: "CHR ''#'' \<in> set spec_js" and bang: "CHR ''!'' \<in> set test_py"
    unfolding spec_js_def test_py_def by simp_all
  have lost_js: "\<not> includes_str fileB spec_js"
    using includes_subset [of fileB spec_js] hash no_hash_in_render_file
    unfolding fileB_def B_def by auto
  have lost_py: "\<not> includes_str fileD test_py"
    using includes_subset [of fileD test_py] bang no_bang_in_bar_file
    unfolding fileD_def D_def by auto
  have gone: "\<not> includes_str fileD (testName C)"
    unfolding fileD_def D_def C_def using foo_not_in_bar_file by simp
  have names: "map testName (generatedTests reg)
         = [''variable_fooBar_accessible'', ''function_render_exists'',
            ''test_variable_foo_defined'', ''test_variable_bar_defined'']"
    by (simp add: gen A_def B_def C_def D_def)
  have contents: "fileB = playwright_file_content
                     (playwright_testCode ''function_render_exists'' (function_check ''render''))"
    "fileD = python_file_content (variable_testCode ''test_variable_bar_defined'' ''bar'')"
    by (simp_all add: fileB_def fileD_def B_def D_def)
  show ?thesis
    unfolding Let_def reg_def [symmetric] spec_js_def [symmetric] test_py_def [symmetric] exported
    using names inA notB inC notD lost_js lost_py gone contents
    by (simp add: A_def B_def C_def D_def)
qed

end
